theory Spec2Isabelle
  imports Complex_Main "HOL-Library.Word"
begin

section \<open>PSD peak finding: a shallow embedding of the notebook's helper functions\<close>

text \<open>
  The notebook \<^verbatim>\<open>voytek_PSD_peak_finding_code_3.5.15.ipynb\<close> is Python 2 over numpy.
  Its numbers are IEEE doubles. They are modelled here as the reals extended by the three
  special values a double can take (\<open>NaN\<close>, \<open>-Inf\<close>, \<open>Inf\<close>): comparisons and the
  arithmetic the code performs follow IEEE on the special values, and are exact (no
  rounding, no overflow) on the finite ones.
\<close>

subsection \<open>Floating-point values and errors\<close>

datatype float64 = NaN | NInf | Fin real | PInf

text \<open>\<^verbatim>\<open>a < b\<close>: false as soon as one side is \<open>NaN\<close>.\<close>

fun fl_lt :: "float64 \<Rightarrow> float64 \<Rightarrow> bool" where
  "fl_lt NaN _ = False"
| "fl_lt _ NaN = False"
| "fl_lt (Fin a) (Fin b) = (a < b)"
| "fl_lt NInf NInf = False"
| "fl_lt NInf _ = True"
| "fl_lt PInf _ = False"
| "fl_lt (Fin a) NInf = False"
| "fl_lt (Fin a) PInf = True"

text \<open>\<^verbatim>\<open>a > b\<close> and \<^verbatim>\<open>a <= b\<close>.\<close>

definition fl_gt :: "float64 \<Rightarrow> float64 \<Rightarrow> bool" where
  "fl_gt a b = fl_lt b a"

definition fl_le :: "float64 \<Rightarrow> float64 \<Rightarrow> bool" where
  "fl_le a b = (a \<noteq> NaN \<and> b \<noteq> NaN \<and> (a = b \<or> fl_lt a b))"

text \<open>\<^verbatim>\<open>a + b\<close> and \<^verbatim>\<open>a - b\<close>.\<close>

fun fl_add :: "float64 \<Rightarrow> float64 \<Rightarrow> float64" where
  "fl_add NaN _ = NaN"
| "fl_add _ NaN = NaN"
| "fl_add (Fin a) (Fin b) = Fin (a + b)"
| "fl_add PInf NInf = NaN"
| "fl_add NInf PInf = NaN"
| "fl_add PInf _ = PInf"
| "fl_add NInf _ = NInf"
| "fl_add (Fin a) PInf = PInf"
| "fl_add (Fin a) NInf = NInf"

fun fl_neg :: "float64 \<Rightarrow> float64" where
  "fl_neg NaN = NaN"
| "fl_neg NInf = PInf"
| "fl_neg PInf = NInf"
| "fl_neg (Fin a) = Fin (- a)"

definition fl_sub :: "float64 \<Rightarrow> float64 \<Rightarrow> float64" where
  "fl_sub a b = fl_add a (fl_neg b)"

text \<open>\<^verbatim>\<open>a * b\<close> (the sign of a zero is not modelled).\<close>

fun fl_mul :: "float64 \<Rightarrow> float64 \<Rightarrow> float64" where
  "fl_mul NaN _ = NaN"
| "fl_mul _ NaN = NaN"
| "fl_mul (Fin a) (Fin b) = Fin (a * b)"
| "fl_mul (Fin a) PInf = (if a = 0 then NaN else if 0 < a then PInf else NInf)"
| "fl_mul (Fin a) NInf = (if a = 0 then NaN else if 0 < a then NInf else PInf)"
| "fl_mul PInf (Fin b) = (if b = 0 then NaN else if 0 < b then PInf else NInf)"
| "fl_mul NInf (Fin b) = (if b = 0 then NaN else if 0 < b then NInf else PInf)"
| "fl_mul PInf PInf = PInf"
| "fl_mul NInf NInf = PInf"
| "fl_mul PInf NInf = NInf"
| "fl_mul NInf PInf = NInf"

text \<open>\<^verbatim>\<open>int(r)\<close> on a finite double: truncation towards zero.\<close>

definition py_int :: "real \<Rightarrow> int" where
  "py_int r = (if r < 0 then \<lceil>r\<rceil> else \<lfloor>r\<rfloor>)"

text \<open>
  The exceptions the modelled code can raise. \<^verbatim>\<open>sys.exit(msg)\<close> raises
  \<^verbatim>\<open>SystemExit\<close>, which is not a subclass of \<^verbatim>\<open>Exception\<close>.
\<close>

datatype error = SystemExit string | IndexError | ValueError

fun is_Exception :: "error \<Rightarrow> bool" where
  "is_Exception (SystemExit _) = False"
| "is_Exception IndexError = True"
| "is_Exception ValueError = True"

subsection \<open>The extrema detector \<^verbatim>\<open>peakdect\<close>\<close>

text \<open>
  The argument \<^verbatim>\<open>delta\<close> is dynamically typed: \<^verbatim>\<open>isscalar\<close> tells a number from an
  array. The argument \<^verbatim>\<open>x\<close> defaults to \<^verbatim>\<open>None\<close>.
\<close>

datatype delta_arg = Scalar float64 | Array "float64 list"

fun isscalar :: "delta_arg \<Rightarrow> bool" where
  "isscalar (Scalar _) = True"
| "isscalar (Array _) = False"

record pd_state =
  mn :: float64
  mx :: float64
  mnpos :: float64
  mxpos :: float64
  lookformax :: bool
  maxtab :: "(float64 \<times> float64) list"
  mintab :: "(float64 \<times> float64) list"

text \<open>\<^verbatim>\<open>mn, mx = Inf, -Inf; mnpos, mxpos = NaN, NaN; lookformax = True\<close>\<close>

definition pd_init :: pd_state where
  "pd_init = \<lparr>mn = PInf, mx = NInf, mnpos = NaN, mxpos = NaN, lookformax = True,
              maxtab = [], mintab = []\<rparr>"

text \<open>One iteration of the loop body, at the sample \<open>this = v[i]\<close> with coordinate \<open>xi = x[i]\<close>.\<close>

definition pd_step :: "float64 \<Rightarrow> pd_state \<Rightarrow> float64 \<times> float64 \<Rightarrow> pd_state" where
  "pd_step delta s p =
     (let this = fst p; xi = snd p;
          s1 = (if fl_gt this (mx s) then s\<lparr>mx := this, mxpos := xi\<rparr> else s);
          s2 = (if fl_lt this (mn s1) then s1\<lparr>mn := this, mnpos := xi\<rparr> else s1)
      in if lookformax s2 then
           (if fl_lt this (fl_sub (mx s2) delta)
            then s2\<lparr>maxtab := maxtab s2 @ [(mxpos s2, mx s2)],
                    mn := this, mnpos := xi, lookformax := False\<rparr>
            else s2)
         else
           (if fl_gt this (fl_add (mn s2) delta)
            then s2\<lparr>mintab := mintab s2 @ [(mnpos s2, mn s2)],
                    mx := this, mxpos := xi, lookformax := True\<rparr>
            else s2))"

text \<open>\<^verbatim>\<open>for i in arange(len(v))\<close>, over the samples paired with their coordinates.\<close>

fun pd_loop :: "float64 \<Rightarrow> pd_state \<Rightarrow> (float64 \<times> float64) list \<Rightarrow> pd_state" where
  "pd_loop delta s [] = s"
| "pd_loop delta s (p # ps) = pd_loop delta (pd_step delta s p) ps"

text \<open>\<^verbatim>\<open>arange(len(v))\<close>\<close>

definition arange :: "nat \<Rightarrow> float64 list" where
  "arange n = map (\<lambda>i. Fin (real i)) [0..<n]"

text \<open>\<^verbatim>\<open>if x is None: x = arange(len(v))\<close>\<close>

definition pd_coords :: "float64 list \<Rightarrow> float64 list option \<Rightarrow> float64 list" where
  "pd_coords v x = (case x of None \<Rightarrow> arange (length v) | Some xs \<Rightarrow> xs)"

definition peakdect ::
  "float64 list \<Rightarrow> delta_arg \<Rightarrow> float64 list option
     \<Rightarrow> error + ((float64 \<times> float64) list \<times> (float64 \<times> float64) list)" where
  "peakdect v delta x =
     (let x' = pd_coords v x
      in if length v \<noteq> length x'
         then Inl (SystemExit ''Input vectors v and x must have same length'')
         else case delta of
           Array _ \<Rightarrow> Inl (SystemExit ''Input argument delta must be a scalar'')
         | Scalar d \<Rightarrow>
             if fl_le d (Fin 0)
             then Inl (SystemExit ''Input argument delta must be positive'')
             else let s = pd_loop d pd_init (zip v x')
                  in Inr (maxtab s, mintab s))"

text \<open>
  The confirmations of a run in detection order: for each iteration, which of the two
  tables it appended to. This is read off the loop states; it is what the claim about
  alternation speaks of, since the two returned tables alone do not record how their
  entries interleave.
\<close>

datatype polarity = Maximum | Minimum

fun pd_confirmations ::
  "float64 \<Rightarrow> pd_state \<Rightarrow> (float64 \<times> float64) list \<Rightarrow> polarity list" where
  "pd_confirmations delta s [] = []"
| "pd_confirmations delta s (p # ps) =
     (let s' = pd_step delta s p
      in (if length (maxtab s) < length (maxtab s') then [Maximum] else []) @
         (if length (mintab s) < length (mintab s') then [Minimum] else []) @
         pd_confirmations delta s' ps)"

text \<open>\<open>alternates q es\<close>: the polarities \<open>es\<close> alternate, the first one being \<open>q\<close>.\<close>

fun alternates :: "polarity \<Rightarrow> polarity list \<Rightarrow> bool" where
  "alternates q [] = True"
| "alternates Maximum (e # es) = (e = Maximum \<and> alternates Minimum es)"
| "alternates Minimum (e # es) = (e = Minimum \<and> alternates Maximum es)"

subsection \<open>The restriction layer \<^verbatim>\<open>find_peaks\<close>\<close>

text \<open>
  \<^verbatim>\<open>np.uint32(i)\<close> on a double: the conversion truncates towards zero and keeps the low
  32 bits. (On a value that is not finite, or outside the range of the type, the result
  of the C conversion depends on the platform; no statement below depends on it.)
\<close>

definition np_uint32 :: "float64 \<Rightarrow> 32 word" where
  "np_uint32 f = (case f of
       Fin r \<Rightarrow> word_of_int (py_int r)
     | _ \<Rightarrow> 0)"

text \<open>
  \<^verbatim>\<open>array(tab)[:,0]\<close>: a non-empty table of pairs is a two-dimensional array, and the
  expression is its first column. The array of the empty list has one dimension only,
  and indexing it with two indices raises \<^verbatim>\<open>IndexError\<close>.
\<close>

definition column0 :: "(float64 \<times> float64) list \<Rightarrow> error + float64 list" where
  "column0 tab = (if tab = [] then Inl IndexError else Inr (map fst tab))"

text \<open>\<^verbatim>\<open>[np.uint32(i) for i in (array(tab)[:,0]) if i <= 30]\<close>\<close>

definition band_indices :: "(float64 \<times> float64) list \<Rightarrow> error + int list" where
  "band_indices tab = (case column0 tab of
       Inl e \<Rightarrow> Inl e
     | Inr col \<Rightarrow> Inr (map (\<lambda>i. uint (np_uint32 i)) (filter (\<lambda>i. fl_le i (Fin 30)) col)))"

text \<open>\<^verbatim>\<open>try: r = body  except Exception: r = [-1]\<close>\<close>

definition try_sentinel :: "error + int list \<Rightarrow> error + int list" where
  "try_sentinel body = (case body of
       Inl e \<Rightarrow> (if is_Exception e then Inr [- 1] else Inl e)
     | Inr r \<Rightarrow> Inr r)"

definition find_peaks ::
  "float64 list \<Rightarrow> delta_arg \<Rightarrow> float64 list option \<Rightarrow> error + (int list \<times> int list)" where
  "find_peaks flatspec sliding_window f =
     (case peakdect flatspec sliding_window f of
        Inl e \<Rightarrow> Inl e
      | Inr (maxpks, minpks) \<Rightarrow>
          (case try_sentinel (band_indices maxpks) of
             Inl e \<Rightarrow> Inl e
           | Inr peakind \<Rightarrow>
               (case try_sentinel (band_indices minpks) of
                  Inl e \<Rightarrow> Inl e
                | Inr valleyind \<Rightarrow> Inr (peakind, valleyind))))"

subsection \<open>The model function \<^verbatim>\<open>norm\<close>\<close>

text \<open>
  \<^verbatim>\<open>sp.stats.norm.pdf(x, loc, scale)\<close> on finite arguments: the normal density for a
  positive \<^verbatim>\<open>scale\<close>, and \<open>NaN\<close> otherwise.
\<close>

definition normal_density :: "real \<Rightarrow> real \<Rightarrow> real \<Rightarrow> real" where
  "normal_density x loc scale = exp (- (((x - loc) / scale)\<^sup>2) / 2) / sqrt (2 * pi) / scale"

definition norm_pdf :: "real \<Rightarrow> real \<Rightarrow> real \<Rightarrow> float64" where
  "norm_pdf x loc scale = (if 0 < scale then Fin (normal_density x loc scale) else NaN)"

text \<open>
  \<^verbatim>\<open>fitdat\<close> starts as the zero-dimensional array \<^verbatim>\<open>np.array(0)\<close>; adding a vector
  to it broadcasts.
\<close>

datatype ndarray = Arr0 float64 | Arr1 "float64 list"

fun nd_add :: "ndarray \<Rightarrow> float64 list \<Rightarrow> ndarray" where
  "nd_add (Arr0 a) ys = Arr1 (map (fl_add a) ys)"
| "nd_add (Arr1 xs) ys = Arr1 (map2 fl_add xs ys)"

text \<open>\<^verbatim>\<open>args[i]\<close> on the tuple of parameters, for an index that is not negative.\<close>

definition tuple_get :: "real list \<Rightarrow> nat \<Rightarrow> error + real" where
  "tuple_get args i = (if i < length args then Inr (args ! i) else Inl IndexError)"

text \<open>\<^verbatim>\<open>for peaki in range(number_of_gaussians)\<close>\<close>

fun norm_loop ::
  "real list \<Rightarrow> real list \<Rightarrow> nat \<Rightarrow> nat list \<Rightarrow> ndarray \<Rightarrow> error + ndarray" where
  "norm_loop x args number_of_gaussians [] fitdat = Inr fitdat"
| "norm_loop x args number_of_gaussians (peaki # rest) fitdat =
     (case tuple_get args (peaki + 2 * number_of_gaussians) of
        Inl e \<Rightarrow> Inl e
      | Inr amp \<Rightarrow>
          (case tuple_get args peaki of
             Inl e \<Rightarrow> Inl e
           | Inr loc \<Rightarrow>
               (case tuple_get args (peaki + number_of_gaussians) of
                  Inl e \<Rightarrow> Inl e
                | Inr scale \<Rightarrow>
                    norm_loop x args number_of_gaussians rest
                      (nd_add fitdat (map (\<lambda>xi. fl_mul (Fin amp) (norm_pdf xi loc scale)) x)))))"

text \<open>
  \<^verbatim>\<open>norm(x, *args)\<close>; \<^verbatim>\<open>args[-1]\<close> raises on the empty tuple, and \<^verbatim>\<open>range\<close> of a
  number that is not positive is empty.
\<close>

definition norm_py :: "real list \<Rightarrow> real list \<Rightarrow> error + ndarray" where
  "norm_py x args =
     (if args = [] then Inl IndexError
      else let number_of_gaussians = nat (py_int (last args))
           in norm_loop x args number_of_gaussians [0..<number_of_gaussians] (Arr0 (Fin 0)))"

subsection \<open>numpy's order statistics\<close>

text \<open>Sorting doubles that are not \<open>NaN\<close>, by insertion.\<close>

fun fl_insort :: "float64 \<Rightarrow> float64 list \<Rightarrow> float64 list" where
  "fl_insort x [] = [x]"
| "fl_insort x (y # ys) = (if fl_le x y then x # y # ys else y # fl_insort x ys)"

definition fl_sort :: "float64 list \<Rightarrow> float64 list" where
  "fl_sort xs = foldr fl_insort xs []"

text \<open>
  \<^verbatim>\<open>median(a)\<close> (\<^verbatim>\<open>np.median\<close>, which \<^verbatim>\<open>%pylab\<close> imports): the middle of the sorted
  values, or the mean of the two middle ones; \<open>NaN\<close> on the empty array (the mean of an
  empty slice) and on an array that holds a \<open>NaN\<close>.
\<close>

definition np_median :: "float64 list \<Rightarrow> float64" where
  "np_median a =
     (if a = [] \<or> NaN \<in> set a then NaN
      else let s = fl_sort a; n = length a
           in if even n
              then fl_mul (fl_add (s ! (n div 2 - 1)) (s ! (n div 2))) (Fin (1 / 2))
              else s ! (n div 2))"

text \<open>
  \<^verbatim>\<open>percentile(a, q)\<close> with linear interpolation between the two nearest ranks of the
  sorted values; \<open>NaN\<close> on an array that holds a \<open>NaN\<close>. (The code calls it on 1000
  values only; the empty array is given \<open>NaN\<close> here.)
\<close>

definition np_percentile :: "float64 list \<Rightarrow> real \<Rightarrow> float64" where
  "np_percentile a q =
     (if a = [] \<or> NaN \<in> set a then NaN
      else let s = fl_sort a;
               idx = q / 100 * real (length a - 1);
               below = nat \<lfloor>idx\<rfloor>;
               above = min (Suc below) (length a - 1);
               weight_above = idx - real below
           in fl_add (fl_mul (s ! below) (Fin (1 - weight_above)))
                     (fl_mul (s ! above) (Fin weight_above)))"



text \<open>
  \<^verbatim>\<open>np.histogram(a, bins)\<close> for a number of bins: the range is that of the data (\<open>(0, 1)\<close>
  for no data, widened by a half on each side when the data have one value), the edges
  are \<^verbatim>\<open>linspace(mn, mx, bins + 1)\<close>, and every bin is half-open, \<open>[low, high)\<close>, but
  the last, which is closed.
\<close>

definition np_histogram :: "real list \<Rightarrow> nat \<Rightarrow> nat list \<times> real list" where
  "np_histogram a bins =
     (let range = (if a = [] then (0, 1) else (fold min (tl a) (hd a), fold max (tl a) (hd a)));
          mn = (if fst range = snd range then fst range - 1 / 2 else fst range);
          mx = (if fst range = snd range then snd range + 1 / 2 else snd range);
          bin_edge = map (\<lambda>i. if i = bins then mx else mn + real i * ((mx - mn) / real bins))
                         [0..<Suc bins];
          bin_count = map (\<lambda>i. length (filter (\<lambda>c. bin_edge ! i \<le> c \<and>
                                 (if Suc i = bins then c \<le> bin_edge ! Suc i
                                  else c < bin_edge ! Suc i)) a))
                          [0..<bins]
      in (bin_count, bin_edge))"

subsection \<open>\<^verbatim>\<open>kmeans\<close> and the cluster-count selector \<^verbatim>\<open>find_cluster\<close>\<close>









subsection \<open>\<^verbatim>\<open>bootstrap\<close>\<close>

text \<open>
  \<^verbatim>\<open>np.random.choice(a, size=n)\<close> draws \<open>n\<close> entries of \<open>a\<close> with replacement, and
  raises \<^verbatim>\<open>ValueError\<close> on an empty \<open>a\<close>. The random source is a parameter of the model:
  the stream \<open>draws\<close> of numbers it produces, the \<open>j\<close>-th one picking the entry at index
  \<open>draws j mod len(a)\<close>.
\<close>

definition np_random_choice :: "(nat \<Rightarrow> nat) \<Rightarrow> real list \<Rightarrow> nat \<Rightarrow> error + real list" where
  "np_random_choice draws a n =
     (if a = [] then Inl ValueError
      else Inr (map (\<lambda>j. a ! (draws j mod length a)) [0..<n]))"

text \<open>\<^verbatim>\<open>for i in range(0,1000)\<close>, the random stream of iteration \<open>i\<close> being \<open>rng i\<close>.\<close>

fun bootstrap_loop ::
  "(nat \<Rightarrow> nat \<Rightarrow> nat) \<Rightarrow> real list \<Rightarrow> nat list \<Rightarrow> float64 list \<Rightarrow> error + float64 list" where
  "bootstrap_loop rng data [] bootstrap_dist = Inr bootstrap_dist"
| "bootstrap_loop rng data (i # rest) bootstrap_dist =
     (let total_points = length data
      in case np_random_choice (rng i) data (nat (py_int (8 / 10 * real total_points))) of
           Inl e \<Rightarrow> Inl e
         | Inr data_sample \<Rightarrow>
             bootstrap_loop rng data rest (bootstrap_dist[i := np_median (map Fin data_sample)]))"

definition bootstrap :: "(nat \<Rightarrow> nat \<Rightarrow> nat) \<Rightarrow> real list \<Rightarrow> error + float64 list" where
  "bootstrap rng data =
     (case bootstrap_loop rng data [0..<1000] (replicate 1000 (Fin 0)) of
        Inl e \<Rightarrow> Inl e
      | Inr bootstrap_dist \<Rightarrow>
          Inr [np_median bootstrap_dist,
               np_percentile bootstrap_dist (25 / 10),
               np_percentile bootstrap_dist (975 / 10)])"

text \<open>A random source that always produces 0, for the concrete runs below.\<close>

definition rng_zero :: "nat \<Rightarrow> nat \<Rightarrow> nat \<Rightarrow> nat" where
  "rng_zero call i j = 0"

subsection \<open>The consensus aggregator \<^verbatim>\<open>final_check_for_output\<close>\<close>

text \<open>
  \<^verbatim>\<open>flatspec[c]\<close> with a double \<open>c\<close> as index: the numpy of the notebook truncates it to
  an integer (with a \<^verbatim>\<open>DeprecationWarning\<close>, which the notebook silences); a negative
  index counts from the end.
\<close>

definition float_index :: "real list \<Rightarrow> real \<Rightarrow> error + real" where
  "float_index a c =
     (let i = py_int c; n = int (length a)
      in if 0 \<le> i \<and> i < n then Inr (a ! nat i)
         else if i < 0 \<and> - n \<le> i then Inr (a ! nat (n + i))
         else Inl IndexError)"

text \<open>\<^verbatim>\<open>extcv_std[cv][i]\<close>\<close>

definition std_at :: "real list list \<Rightarrow> nat \<Rightarrow> nat \<Rightarrow> error + real" where
  "std_at extcv_std cv i =
     (if cv < length extcv_std \<and> i < length (extcv_std ! cv)
      then Inr (extcv_std ! cv ! i) else Inl IndexError)"

text \<open>\<^verbatim>\<open>for i in range(len(extcv_pks[cv]))\<close>, the two rasters being the accumulator.\<close>

fun raster_inner ::
  "real list list \<Rightarrow> real list list \<Rightarrow> real list \<Rightarrow> nat \<Rightarrow> nat list
     \<Rightarrow> real list \<times> real list \<Rightarrow> error + (real list \<times> real list)" where
  "raster_inner extcv_pks extcv_std flatspec cv [] rasters = Inr rasters"
| "raster_inner extcv_pks extcv_std flatspec cv (i # rest) rasters =
     (if extcv_pks ! cv ! i \<le> 30 \<and> 0 \<le> extcv_pks ! cv ! i
      then (case float_index flatspec (extcv_pks ! cv ! i) of
              Inl e \<Rightarrow> Inl e
            | Inr fv \<Rightarrow>
                if 0 < fv
                then (case std_at extcv_std cv i of
                        Inl e \<Rightarrow> Inl e
                      | Inr sd \<Rightarrow>
                          raster_inner extcv_pks extcv_std flatspec cv rest
                            (fst rasters @ [extcv_pks ! cv ! i], snd rasters @ [sd]))
                else raster_inner extcv_pks extcv_std flatspec cv rest rasters)
      else raster_inner extcv_pks extcv_std flatspec cv rest rasters)"

text \<open>\<^verbatim>\<open>for cv in range(len(extcv_pks))\<close>\<close>

fun raster_outer ::
  "real list list \<Rightarrow> real list list \<Rightarrow> real list \<Rightarrow> nat list
     \<Rightarrow> real list \<times> real list \<Rightarrow> error + (real list \<times> real list)" where
  "raster_outer extcv_pks extcv_std flatspec [] rasters = Inr rasters"
| "raster_outer extcv_pks extcv_std flatspec (cv # rest) rasters =
     (case raster_inner extcv_pks extcv_std flatspec cv [0..<length (extcv_pks ! cv)] rasters of
        Inl e \<Rightarrow> Inl e
      | Inr rasters' \<Rightarrow> raster_outer extcv_pks extcv_std flatspec rest rasters')"

text \<open>
  The loop that builds \<^verbatim>\<open>valid_peak_range\<close>: the edge pairs of the bins whose count
  reaches \<^verbatim>\<open>bin_thresh*len(extcv_pks_raster)\<close>, in the order of the bins.
\<close>

definition valid_peak_range :: "nat list \<Rightarrow> real list \<Rightarrow> nat \<Rightarrow> (real \<times> real) list" where
  "valid_peak_range bin_count bin_edge n =
     map (\<lambda>i. (bin_edge ! i, bin_edge ! Suc i))
       (filter (\<lambda>i. 5 / 100 * real n \<le> real (bin_count ! i)) [0..<length bin_count])"

text \<open>
  The loop that builds \<^verbatim>\<open>sorted_params\<close>: for each valid range, the raster entries
  whose center lies between its two edges, both included.
\<close>

definition sorted_params ::
  "real list \<Rightarrow> real list \<Rightarrow> (real \<times> real) list \<Rightarrow> (real list \<times> real list) list" where
  "sorted_params pks_raster std_raster ranges =
     map (\<lambda>r. let temp_ind = filter (\<lambda>i. fst r \<le> pks_raster ! i \<and> pks_raster ! i \<le> snd r)
                                    [0..<length pks_raster]
              in (map (\<lambda>i. pks_raster ! i) temp_ind, map (\<lambda>i. std_raster ! i) temp_ind))
       ranges"

text \<open>\<^verbatim>\<open>2.355*sorted_params[j][1]\<close>, entry by entry.\<close>

definition fwhm :: "real \<Rightarrow> real" where
  "fwhm sd = 2355 / 1000 * sd"

text \<open>
  \<^verbatim>\<open>for j in range(len(valid_peak_range))\<close>. The two calls of \<^verbatim>\<open>bootstrap\<close> at bin
  \<open>j\<close> use the random sources \<open>rng (2 * j)\<close> and \<open>rng (2 * j + 1)\<close>.
\<close>

fun output_loop ::
  "(nat \<Rightarrow> nat \<Rightarrow> nat \<Rightarrow> nat) \<Rightarrow> (real list \<times> real list) list \<Rightarrow> nat list
     \<Rightarrow> float64 list \<times> float64 list \<Rightarrow> error + (float64 list \<times> float64 list)" where
  "output_loop rng params [] finals = Inr finals"
| "output_loop rng params (j # rest) finals =
     (let med_peak = np_median (map Fin (fst (params ! j)));
          med_std = np_median (map Fin (snd (params ! j)))
      in if fl_le med_std (Fin 10)
         then (case bootstrap (rng (2 * j)) (fst (params ! j)) of
                 Inl e \<Rightarrow> Inl e
               | Inr cf_params \<Rightarrow>
                   (case bootstrap (rng (2 * j + 1)) (map fwhm (snd (params ! j))) of
                      Inl e \<Rightarrow> Inl e
                    | Inr bw_params \<Rightarrow>
                        output_loop rng params rest
                          (fst finals @ [cf_params ! 0], snd finals @ [bw_params ! 0])))
         else output_loop rng params rest finals)"

definition final_check_for_output ::
  "(nat \<Rightarrow> nat \<Rightarrow> nat \<Rightarrow> nat) \<Rightarrow> real list list \<Rightarrow> real list list \<Rightarrow> real list
     \<Rightarrow> error + (float64 list \<times> float64 list)" where
  "final_check_for_output rng extcv_pks extcv_std flatspec =
     (case raster_outer extcv_pks extcv_std flatspec [0..<length extcv_pks] ([], []) of
        Inl e \<Rightarrow> Inl e
      | Inr rasters \<Rightarrow>
          (let hist = np_histogram (fst rasters) 5;
               ranges = valid_peak_range (fst hist) (snd hist) (length (fst rasters));
               params = sorted_params (fst rasters) (snd rasters) ranges
           in output_loop rng params [0..<length ranges] ([], [])))"

text \<open>
  What the specification says of the aggregator. The members of bin \<open>i\<close> are the raster
  entries (given by their positions) that \<^verbatim>\<open>np.histogram\<close> counts in it; a bin is
  supported when they are at least 5% of the raster, and narrow when the median of their
  fitted widths is at most 10. A raster has an edge tie when one of its centers is one
  of the four inner edges.
\<close>

definition bin_members :: "real list \<Rightarrow> nat \<Rightarrow> nat list" where
  "bin_members pks_raster i =
     (let bin_edge = snd (np_histogram pks_raster 5)
      in filter (\<lambda>k. bin_edge ! i \<le> pks_raster ! k \<and>
                     (if Suc i = 5 then pks_raster ! k \<le> bin_edge ! Suc i
                      else pks_raster ! k < bin_edge ! Suc i))
           [0..<length pks_raster])"

definition supported :: "real list \<Rightarrow> nat \<Rightarrow> bool" where
  "supported pks_raster i =
     (5 / 100 * real (length pks_raster) \<le> real (length (bin_members pks_raster i)))"

definition narrow :: "real list \<Rightarrow> real list \<Rightarrow> nat \<Rightarrow> bool" where
  "narrow pks_raster std_raster i =
     fl_le (np_median (map (\<lambda>k. Fin (std_raster ! k)) (bin_members pks_raster i))) (Fin 10)"

definition edge_tie :: "real list \<Rightarrow> bool" where
  "edge_tie pks_raster =
     list_ex (\<lambda>c. list_ex (\<lambda>i. c = snd (np_histogram pks_raster 5) ! i) [1..<5]) pks_raster"

text \<open>The 1000 sample medians that \<^verbatim>\<open>bootstrap\<close> collects from a non-empty array.\<close>

definition bootstrap_medians :: "(nat \<Rightarrow> nat \<Rightarrow> nat) \<Rightarrow> real list \<Rightarrow> float64 list" where
  "bootstrap_medians rng data =
     map (\<lambda>i. np_median (map (\<lambda>j. Fin (data ! (rng i j mod length data)))
                              [0..<nat (py_int (8 / 10 * real (length data)))]))
       [0..<1000]"

section \<open>Theorems\<close>

subsection \<open>The extrema detector\<close>

lemma pd_step_cases:
  "(maxtab (pd_step d s p) = maxtab s \<and> mintab (pd_step d s p) = mintab s
      \<and> lookformax (pd_step d s p) = lookformax s)
   \<or> (lookformax s \<and> \<not> lookformax (pd_step d s p)
      \<and> (\<exists>e. maxtab (pd_step d s p) = maxtab s @ [e]) \<and> mintab (pd_step d s p) = mintab s)
   \<or> (\<not> lookformax s \<and> lookformax (pd_step d s p)
      \<and> (\<exists>e. mintab (pd_step d s p) = mintab s @ [e]) \<and> maxtab (pd_step d s p) = maxtab s)"
  by (simp add: pd_step_def Let_def)

lemma pd_loop_alternates:
  "alternates (if lookformax s then Maximum else Minimum) (pd_confirmations d s ps)
   \<and> length (maxtab (pd_loop d s ps))
       = length (maxtab s) + count_list (pd_confirmations d s ps) Maximum
   \<and> length (mintab (pd_loop d s ps))
       = length (mintab s) + count_list (pd_confirmations d s ps) Minimum"
proof (induction ps arbitrary: s)
  case Nil
  then show ?case by simp
next
  case (Cons p ps)
  from pd_step_cases [of d s p] Cons.IH [of "pd_step d s p"] show ?case
    by (auto simp: Let_def)
qed

lemma alternates_count:
  "alternates q es \<Longrightarrow>
     (q = Maximum \<longrightarrow> count_list es Maximum = count_list es Minimum \<or> count_list es Maximum = Suc (count_list es Minimum))
   \<and> (q = Minimum \<longrightarrow> count_list es Minimum = count_list es Maximum \<or> count_list es Minimum = Suc (count_list es Maximum))"
proof (induction q es rule: alternates.induct)
  case (1 q)
  then show ?case by simp
next
  case (2 e es)
  then show ?case by auto
next
  case (3 e es)
  then show ?case by auto
qed






text \<open>
  C6. \<^verbatim>\<open>peakdect\<close> fails exactly when the value and coordinate sequences differ in
  length, or \<^verbatim>\<open>delta\<close> is not a scalar, or \<^verbatim>\<open>delta <= 0\<close>. The failure is a
  \<^verbatim>\<open>SystemExit\<close>, which the handlers of the calling \<^verbatim>\<open>find_peaks\<close> do not catch:
  it reaches the caller.
\<close>

theorem peakdect_invalid_argument:
  "((\<exists>e. peakdect v delta x = Inl e) \<longleftrightarrow>
      (length v \<noteq> length (pd_coords v x) \<or> \<not> isscalar delta
       \<or> (\<exists>d. delta = Scalar d \<and> fl_le d (Fin 0))))
   \<and> (\<forall>e. peakdect v delta x = Inl e \<longrightarrow>
         (\<exists>msg. e = SystemExit msg) \<and> find_peaks v delta x = Inl e)"
  by (cases delta) (auto simp: peakdect_def find_peaks_def Let_def)

theorem peakdect_invalid_argument_witness:
  "\<exists>msg. peakdect [Fin 1, Fin 2] (Scalar (Fin (- 1))) None = Inl (SystemExit msg)
        \<and> find_peaks [Fin 1, Fin 2] (Scalar (Fin (- 1))) None = Inl (SystemExit msg)"
  using peakdect_invalid_argument [of "[Fin 1, Fin 2]" "Scalar (Fin (- 1))" None]
  by (auto simp: fl_le_def)

text \<open>
  C10. For every input and every \<^verbatim>\<open>delta > 0\<close> the detector returns, and its
  confirmations alternate in detection order, the first one being a maximum: the
  returned maxima are as many as the returned minima, or one more.
\<close>

theorem peakdect_alternation:
  assumes "fl_lt (Fin 0) d" and "length (pd_coords v x) = length v"
  shows "\<exists>maxs mins. peakdect v (Scalar d) x = Inr (maxs, mins)
      \<and> alternates Maximum (pd_confirmations d pd_init (zip v (pd_coords v x)))
      \<and> length maxs = count_list (pd_confirmations d pd_init (zip v (pd_coords v x))) Maximum
      \<and> length mins = count_list (pd_confirmations d pd_init (zip v (pd_coords v x))) Minimum
      \<and> (length maxs = length mins \<or> length maxs = Suc (length mins))"
proof -
  let ?ps = "zip v (pd_coords v x)"
  let ?es = "pd_confirmations d pd_init ?ps"
  from assms(1) have pos: "\<not> fl_le d (Fin 0)"
    by (cases d) (auto simp: fl_le_def)
  have a: "alternates Maximum ?es"
    and m: "length (maxtab (pd_loop d pd_init ?ps)) = count_list ?es Maximum"
    and n: "length (mintab (pd_loop d pd_init ?ps)) = count_list ?es Minimum"
    using pd_loop_alternates [of pd_init d ?ps] by (simp_all add: pd_init_def)
  from alternates_count [OF a]
  have "count_list ?es Maximum = count_list ?es Minimum \<or> count_list ?es Maximum = Suc (count_list ?es Minimum)"
    by simp
  with a m n pos assms(2) show ?thesis
    by (simp add: peakdect_def Let_def)
qed

theorem peakdect_alternation_witness:
  "peakdect [Fin 0, Fin 1, Fin 0, Fin 1, Fin 0] (Scalar (Fin (1 / 2))) None
     = Inr ([(Fin 1, Fin 1), (Fin 3, Fin 1)], [(Fin 2, Fin 0)])
   \<and> alternates Maximum (pd_confirmations (Fin (1 / 2)) pd_init
        (zip [Fin 0, Fin 1, Fin 0, Fin 1, Fin 0]
             (pd_coords [Fin 0, Fin 1, Fin 0, Fin 1, Fin 0] None)))"
proof -
  have v: "peakdect [Fin 0, Fin 1, Fin 0, Fin 1, Fin 0] (Scalar (Fin (1 / 2))) None
     = Inr ([(Fin 1, Fin 1), (Fin 3, Fin 1)], [(Fin 2, Fin 0)])"
    by code_simp
  have l: "length (pd_coords [Fin 0, Fin 1, Fin 0, Fin 1, Fin 0] None)
     = length [Fin 0, Fin 1, Fin 0, Fin 1, Fin 0]"
    by (simp add: pd_coords_def arange_def)
  have d: "fl_lt (Fin 0) (Fin (1 / 2))" by simp
  from peakdect_alternation [OF d l] v show ?thesis by simp
qed



subsection \<open>The restriction layer\<close>

text \<open>
  C7, as the claim states it, fails: here a maximum is detected at 32 Hz and none at or
  below 30 Hz, and the list of peaks returned is empty, not the sentinel \<open>[-1]\<close>.
\<close>

theorem find_peaks_all_above_band_counterexample:
  "find_peaks [Fin 0, Fin 1, Fin 0] (Scalar (Fin (1 / 2))) (Some [Fin 31, Fin 32, Fin 33])
     = Inr ([], [- 1])"
  by code_simp

text \<open>
  C7, amended. The sentinel \<open>[-1]\<close> is returned for a polarity exactly when the detector
  reported no extremum of that polarity; when it reported some, the result is the list
  of those whose coordinate is at most 30 (as unsigned 32-bit integers), the others
  being discarded, and that list is empty when all of them lie above 30.
\<close>

theorem find_peaks_restriction:
  assumes "peakdect flatspec delta f = Inr (maxpks, minpks)"
  shows "find_peaks flatspec delta f = Inr
      (if maxpks = [] then [- 1]
       else map (\<lambda>i. uint (np_uint32 i)) (filter (\<lambda>i. fl_le i (Fin 30)) (map fst maxpks)),
       if minpks = [] then [- 1]
       else map (\<lambda>i. uint (np_uint32 i)) (filter (\<lambda>i. fl_le i (Fin 30)) (map fst minpks)))"
  using assms
  by (simp add: find_peaks_def try_sentinel_def band_indices_def column0_def)

theorem find_peaks_restriction_witness:
  "find_peaks [Fin 0, Fin 1, Fin 0, Fin 1, Fin 0] (Scalar (Fin (1 / 2)))
       (Some [Fin 28, Fin 29, Fin 30, Fin 31, Fin 32])
     = Inr ([29], [30])"
proof -
  have v: "peakdect [Fin 0, Fin 1, Fin 0, Fin 1, Fin 0] (Scalar (Fin (1 / 2)))
       (Some [Fin 28, Fin 29, Fin 30, Fin 31, Fin 32])
     = Inr ([(Fin 29, Fin 1), (Fin 31, Fin 1)], [(Fin 30, Fin 0)])"
    by code_simp
  show ?thesis
    unfolding find_peaks_restriction [OF v]
    by (simp add: fl_le_def np_uint32_def py_int_def)
qed

subsection \<open>The Gaussian-mixture model function\<close>

lemma map2_same: "map2 f (map g xs) (map h xs) = map (\<lambda>x. f (g x) (h x)) xs"
  by (induction xs) simp_all

lemma norm_loop_sum:
  assumes "length cs = k" "length ss = k" "length as = k" "\<forall>s\<in>set ss. 0 < s" "j \<le> k"
  shows "norm_loop x (cs @ ss @ as @ [real k]) k [j..<k]
           (if j = 0 then Arr0 (Fin 0)
            else Arr1 (map (\<lambda>xi. Fin (\<Sum>i<j. as ! i * normal_density xi (cs ! i) (ss ! i))) x))
       = Inr (if k = 0 then Arr0 (Fin 0)
              else Arr1 (map (\<lambda>xi. Fin (\<Sum>i<k. as ! i * normal_density xi (cs ! i) (ss ! i))) x))"
  using assms(5)
proof (induction "k - j" arbitrary: j)
  case 0
  then show ?case by simp
next
  case (Suc d)
  then have jk: "j < k" and d: "d = k - Suc j" and le: "Suc j \<le> k" by simp_all
  have g1: "tuple_get (cs @ ss @ as @ [real k]) (j + 2 * k) = Inr (as ! j)"
    using assms jk by (simp add: tuple_get_def nth_append)
  have g2: "tuple_get (cs @ ss @ as @ [real k]) j = Inr (cs ! j)"
    using assms jk by (simp add: tuple_get_def nth_append)
  have g3: "tuple_get (cs @ ss @ as @ [real k]) (j + k) = Inr (ss ! j)"
    using assms jk by (simp add: tuple_get_def nth_append)
  have pos: "0 < ss ! j" using assms jk by simp
  have step: "nd_add (if j = 0 then Arr0 (Fin 0)
            else Arr1 (map (\<lambda>xi. Fin (\<Sum>i<j. as ! i * normal_density xi (cs ! i) (ss ! i))) x))
          (map (\<lambda>xi. fl_mul (Fin (as ! j)) (norm_pdf xi (cs ! j) (ss ! j))) x)
        = Arr1 (map (\<lambda>xi. Fin (\<Sum>i<Suc j. as ! i * normal_density xi (cs ! i) (ss ! i))) x)"
    using pos by (simp add: norm_pdf_def map2_same)
  from Suc.hyps(1) [OF d le] jk show ?case
    by (simp add: upt_conv_Cons g1 g2 g3 step del: sum.lessThan_Suc)
qed

text \<open>
  C9. On a parameter vector packed as the \<open>k\<close> centers, the \<open>k\<close> standard deviations
  (positive), the \<open>k\<close> amplitudes and \<open>k\<close> itself, \<^verbatim>\<open>norm\<close> returns at each
  frequency point the sum of the \<open>k\<close> weighted normal densities (for \<open>k = 0\<close>, the
  zero-dimensional 0 it started from). Its instance at \<open>k = 1\<close>, center 5, standard
  deviation 1, amplitude 1 and \<open>x = 5\<close> is the value \<open>1 / sqrt (2 * pi)\<close>.
\<close>

theorem norm_py_mixture:
  assumes "length cs = k" "length ss = k" "length as = k" "\<forall>s\<in>set ss. 0 < s"
  shows "norm_py x (cs @ ss @ as @ [real k])
       = Inr (if k = 0 then Arr0 (Fin 0)
              else Arr1 (map (\<lambda>xi. Fin (\<Sum>i<k. as ! i * normal_density xi (cs ! i) (ss ! i))) x))"
  using norm_loop_sum [OF assms, of 0 x] by (simp add: norm_py_def py_int_def)

theorem norm_py_mixture_witness: "norm_py [5] [5, 1, 1, 1] = Inr (Arr1 [Fin (1 / sqrt (2 * pi))])"
  using norm_py_mixture [of "[5]" 1 "[1]" "[1]" "[5]"] by (simp add: normal_density_def)

subsection \<open>The cluster-count selector\<close>

lemma fl_le_Fin [simp]: "fl_le (Fin a) (Fin b) = (a \<le> b)"
  by (auto simp: fl_le_def)



lemma NaN_notin_Fin [simp]: "NaN \<notin> Fin ` A"
  by auto








subsection \<open>The consensus aggregator\<close>

lemma np_histogram_empty:
  "np_histogram [] 5 = ([0, 0, 0, 0, 0], [0, 1 / 5, 2 / 5, 3 / 5, 4 / 5, 1])"
  by code_simp

text \<open>
  C5. On no fitted centers and no fitted widths the aggregator returns two empty
  sequences, and raises nothing. (The histogram of no data has five empty bins, each of
  which reaches the support threshold of 5% of zero; the median width of an empty bin
  is \<open>NaN\<close>, which is not at most 10.)
\<close>

theorem final_check_for_output_empty: "final_check_for_output rng [] [] flatspec = Inr ([], [])"
  by (simp add: final_check_for_output_def np_histogram_empty valid_peak_range_def
      sorted_params_def np_median_def fl_le_def upt_rec [of _ "numeral _"] upt_rec [of 0 "Suc _"] upt_rec [of "Suc _" "Suc _"])

subsection \<open>The bootstrap\<close>

lemma fl_insort_same: "fl_insort (Fin c) (replicate n (Fin c)) = replicate (Suc n) (Fin c)"
  by (cases n) simp_all

lemma fl_sort_replicate: "fl_sort (replicate n (Fin c)) = replicate n (Fin c)"
proof (induction n)
  case 0
  then show ?case by (simp add: fl_sort_def)
next
  case (Suc n)
  then show ?case
    using fl_insort_same [of c n] by (simp add: fl_sort_def)
qed

lemma np_median_replicate:
  assumes "0 < n"
  shows "np_median (replicate n (Fin c)) = Fin c"
proof -
  from assms have "n div 2 < n" and "n div 2 - 1 < n" and "n \<noteq> 0" by simp_all
  then show ?thesis
    by (auto simp: np_median_def fl_sort_replicate Let_def)
qed







lemma sample_size_pos:
  assumes "2 \<le> n"
  shows "0 < nat (py_int (8 / 10 * real n))"
proof -
  from assms have "1 \<le> 8 / 10 * real n" by simp
  then have "1 \<le> \<lfloor>8 / 10 * real n\<rfloor>" by (simp add: le_floor_iff)
  then show ?thesis by (simp add: py_int_def)
qed





subsection \<open>The consensus aggregator: the members of a bin\<close>

lemma fold_update_upt_gen:
  "k \<le> length xs \<Longrightarrow> fold (\<lambda>i d. d[i := g i]) [0..<k] xs = map g [0..<k] @ drop k xs"
proof (induction k)
  case 0
  then show ?case by simp
next
  case (Suc k)
  then have "k < length xs" by simp
  then have "(map g [0..<k] @ drop k xs)[k := g k] = map g [0..<Suc k] @ drop (Suc k) xs"
    by (simp add: list_update_append Cons_nth_drop_Suc [symmetric])
  with Suc show ?case by simp
qed

lemma bootstrap_loop_fold:
  assumes "data \<noteq> []"
  shows "bootstrap_loop rng data ns bd
     = Inr (fold (\<lambda>i d. d[i := np_median (map (\<lambda>j. Fin (data ! (rng i j mod length data)))
                              [0..<nat (py_int (8 / 10 * real (length data)))])]) ns bd)"
  using assms by (induction ns arbitrary: bd) (simp_all add: np_random_choice_def comp_def)

lemma bootstrap_nonempty:
  assumes "data \<noteq> []"
  shows "bootstrap rng data = Inr [np_median (bootstrap_medians rng data),
      np_percentile (bootstrap_medians rng data) (25 / 10),
      np_percentile (bootstrap_medians rng data) (975 / 10)]"
proof -
  have "bootstrap_loop rng data [0..<1000] (replicate 1000 (Fin 0))
      = Inr (bootstrap_medians rng data)"
    unfolding bootstrap_loop_fold [OF assms] bootstrap_medians_def
    by (subst fold_update_upt_gen) simp_all
  then show ?thesis by (simp add: bootstrap_def)
qed

lemma np_median_Fin_not_NaN: "fl_le (np_median (map Fin xs)) y \<Longrightarrow> xs \<noteq> []"
  by (auto simp: np_median_def fl_le_def)

lemma output_loop_filter:
  assumes "\<forall>j\<in>set js. length (fst (params ! j)) = length (snd (params ! j))"
  shows "output_loop rng params js finals = Inr
     (fst finals @ map (\<lambda>j. np_median (bootstrap_medians (rng (2 * j)) (fst (params ! j))))
          (filter (\<lambda>j. fl_le (np_median (map Fin (snd (params ! j)))) (Fin 10)) js),
      snd finals @ map (\<lambda>j. np_median (bootstrap_medians (rng (2 * j + 1))
              (map fwhm (snd (params ! j)))))
          (filter (\<lambda>j. fl_le (np_median (map Fin (snd (params ! j)))) (Fin 10)) js))"
  using assms
proof (induction js arbitrary: finals)
  case Nil
  then show ?case by simp
next
  case (Cons j js)
  show ?case
  proof (cases "fl_le (np_median (map Fin (snd (params ! j)))) (Fin 10)")
    case True
    then have "snd (params ! j) \<noteq> []" by (rule np_median_Fin_not_NaN)
    moreover with Cons.prems have "fst (params ! j) \<noteq> []" by auto
    ultimately show ?thesis
      using True Cons.IH Cons.prems by (simp add: bootstrap_nonempty)
  next
    case False
    then show ?thesis using Cons.IH Cons.prems by simp
  qed
qed

lemma filter_positions: "map ((!) xs) (filter (\<lambda>k. P (xs ! k)) [0..<length xs]) = filter P xs"
proof -
  have "filter P (map ((!) xs) [0..<length xs]) = map ((!) xs) (filter (P \<circ> (!) xs) [0..<length xs])"
    by (rule filter_map)
  then show ?thesis by (simp add: map_nth comp_def)
qed

lemma length_filter_positions:
  "length (filter (\<lambda>k. P (xs ! k)) [0..<length xs]) = length (filter P xs)"
  using filter_positions [of xs P, THEN arg_cong, of length] by simp

lemma np_histogram_fst:
  "fst (np_histogram a bins)
     = map (\<lambda>i. length (filter (\<lambda>c. snd (np_histogram a bins) ! i \<le> c \<and>
                                 (if Suc i = bins then c \<le> snd (np_histogram a bins) ! Suc i
                                  else c < snd (np_histogram a bins) ! Suc i)) a))
         [0..<bins]"
  unfolding np_histogram_def Let_def fst_conv snd_conv by (rule refl)

lemma length_bin_members:
  "length (bin_members pr i)
     = length (filter (\<lambda>c. snd (np_histogram pr 5) ! i \<le> c \<and>
                                 (if Suc i = 5 then c \<le> snd (np_histogram pr 5) ! Suc i
                                  else c < snd (np_histogram pr 5) ! Suc i)) pr)"
  unfolding bin_members_def Let_def
  by (rule length_filter_positions
      [of "\<lambda>c. snd (np_histogram pr 5) ! i \<le> c \<and>
                                 (if Suc i = 5 then c \<le> snd (np_histogram pr 5) ! Suc i
                                  else c < snd (np_histogram pr 5) ! Suc i)" pr])

lemma hist_counts:
  "fst (np_histogram pr 5) = map (\<lambda>i. length (bin_members pr i)) [0..<5]"
  by (subst np_histogram_fst) (simp only: length_bin_members)

lemma valid_bins:
  "valid_peak_range (fst (np_histogram pr 5)) (snd (np_histogram pr 5)) (length pr)
     = map (\<lambda>i. (snd (np_histogram pr 5) ! i, snd (np_histogram pr 5) ! Suc i))
         (filter (supported pr) [0..<5])"
proof -
  have "filter (\<lambda>i. 5 / 100 * real (length pr) \<le> real (map (\<lambda>i. length (bin_members pr i)) [0..<5] ! i)) [0..<5]
      = filter (supported pr) [0..<5]"
    by (rule filter_cong) (auto simp: supported_def simp del: upt_Suc)
  then show ?thesis
    by (simp add: valid_peak_range_def hist_counts del: upt_Suc)
qed

lemma closed_members:
  assumes "\<not> edge_tie pr" and "i < 5"
  shows "filter (\<lambda>k. snd (np_histogram pr 5) ! i \<le> pr ! k \<and> pr ! k \<le> snd (np_histogram pr 5) ! Suc i)
           [0..<length pr] = bin_members pr i"
proof -
  have "(pr ! k \<le> snd (np_histogram pr 5) ! Suc i)
      = (if Suc i = 5 then pr ! k \<le> snd (np_histogram pr 5) ! Suc i
         else pr ! k < snd (np_histogram pr 5) ! Suc i)" if "k < length pr" for k
  proof (cases "Suc i = 5")
    case True
    then show ?thesis by simp
  next
    case False
    with assms(2) have "Suc i \<in> set [1..<5]" by simp
    moreover from that have "pr ! k \<in> set pr" by simp
    ultimately have "pr ! k \<noteq> snd (np_histogram pr 5) ! Suc i"
      using assms(1) unfolding edge_tie_def list_ex_iff by blast
    with False show ?thesis by auto
  qed
  then show ?thesis
    unfolding bin_members_def Let_def by (intro filter_cong) auto
qed


lemma params_nth:
  assumes "\<not> edge_tie pr" and "j < length bins" and "\<forall>i\<in>set bins. i < 5"
  shows "sorted_params pr sr (map (\<lambda>i. (snd (np_histogram pr 5) ! i, snd (np_histogram pr 5) ! Suc i)) bins) ! j
       = (map ((!) pr) (bin_members pr (bins ! j)), map ((!) sr) (bin_members pr (bins ! j)))"
proof -
  from assms(2,3) have "bins ! j < 5" by simp
  from closed_members [OF assms(1) this] assms(2) show ?thesis
    unfolding sorted_params_def Let_def by simp
qed


lemma final_check_output_loop:
  assumes "raster_outer pks std flatspec [0..<length pks] ([], []) = Inr (pr, sr)"
  shows "final_check_for_output rng pks std flatspec
      = output_loop rng
          (sorted_params pr sr
             (map (\<lambda>i. (snd (np_histogram pr 5) ! i, snd (np_histogram pr 5) ! Suc i))
                (filter (supported pr) [0..<5])))
          [0..<length (filter (supported pr) [0..<5])] ([], [])"
  unfolding final_check_for_output_def assms Let_def sum.case fst_conv snd_conv valid_bins
  by (simp only: length_map)


text \<open>
  When no surviving center lies on an inner edge of the histogram, the members that the
  aggregator gives a bin are those the histogram counts in it, and the output has one
  entry for each bin that is supported and narrow, in the order of the bins: the medians
  of the bootstrap of the centers of its members, and of their widths times 2.355.
\<close>

lemma final_check_for_output_no_edge_tie:
  assumes "raster_outer pks std flatspec [0..<length pks] ([], []) = Inr (pr, sr)"
    and "\<not> edge_tie pr"
  defines "bins \<equiv> filter (supported pr) [0..<5]"
  defines "js \<equiv> filter (\<lambda>j. narrow pr sr (bins ! j)) [0..<length bins]"
  shows "final_check_for_output rng pks std flatspec = Inr
           (map (\<lambda>j. np_median (bootstrap_medians (rng (2 * j))
                        (map ((!) pr) (bin_members pr (bins ! j))))) js,
            map (\<lambda>j. np_median (bootstrap_medians (rng (2 * j + 1))
                        (map (\<lambda>k. fwhm (sr ! k)) (bin_members pr (bins ! j))))) js)
       \<and> map ((!) bins) js = filter (\<lambda>i. supported pr i \<and> narrow pr sr i) [0..<5]"
proof -
  define params where "params = sorted_params pr sr
             (map (\<lambda>i. (snd (np_histogram pr 5) ! i, snd (np_histogram pr 5) ! Suc i)) bins)"
  have b5: "\<forall>i\<in>set bins. i < 5"
    by (simp add: bins_def)
  have par: "params ! j = (map ((!) pr) (bin_members pr (bins ! j)),
                           map ((!) sr) (bin_members pr (bins ! j)))" if "j < length bins" for j
    unfolding params_def using assms(2) that b5 by (rule params_nth)
  have len: "\<forall>j\<in>set [0..<length bins]. length (fst (params ! j)) = length (snd (params ! j))"
    by (simp add: par)
  have okn: "fl_le (np_median (map Fin (snd (params ! j)))) (Fin 10) = narrow pr sr (bins ! j)"
    if "j < length bins" for j
    by (simp add: par [OF that] narrow_def comp_def)
  have jse: "filter (\<lambda>j. fl_le (np_median (map Fin (snd (params ! j)))) (Fin 10)) [0..<length bins] = js"
    unfolding js_def by (rule filter_cong) (simp_all add: okn)
  have fc: "final_check_for_output rng pks std flatspec
      = output_loop rng params [0..<length bins] ([], [])"
    unfolding params_def bins_def using assms(1) by (rule final_check_output_loop)
  have out: "output_loop rng params [0..<length bins] ([], []) = Inr
     (map (\<lambda>j. np_median (bootstrap_medians (rng (2 * j)) (fst (params ! j)))) js,
      map (\<lambda>j. np_median (bootstrap_medians (rng (2 * j + 1)) (map fwhm (snd (params ! j))))) js)"
    unfolding output_loop_filter [OF len] jse by simp
  have in_js: "j < length bins" if "j \<in> set js" for j
    using that by (simp add: js_def)
  have m1: "map (\<lambda>j. np_median (bootstrap_medians (rng (2 * j)) (fst (params ! j)))) js
      = map (\<lambda>j. np_median (bootstrap_medians (rng (2 * j))
                        (map ((!) pr) (bin_members pr (bins ! j))))) js"
    by (rule map_cong [OF refl]) (simp add: par [OF in_js])
  have m2: "map (\<lambda>j. np_median (bootstrap_medians (rng (2 * j + 1)) (map fwhm (snd (params ! j))))) js
      = map (\<lambda>j. np_median (bootstrap_medians (rng (2 * j + 1))
                        (map (\<lambda>k. fwhm (sr ! k)) (bin_members pr (bins ! j))))) js"
    by (rule map_cong [OF refl]) (simp add: par [OF in_js] comp_def)
  have "map ((!) bins) js = filter (narrow pr sr) bins"
    unfolding js_def by (simp only: filter_positions)
  also have "\<dots> = filter (\<lambda>i. supported pr i \<and> narrow pr sr i) [0..<5]"
    unfolding bins_def by (simp only: filter_filter)
  finally have sel: "map ((!) bins) js = filter (\<lambda>i. supported pr i \<and> narrow pr sr i) [0..<5]" .
  have "final_check_for_output rng pks std flatspec = Inr
           (map (\<lambda>j. np_median (bootstrap_medians (rng (2 * j))
                        (map ((!) pr) (bin_members pr (bins ! j))))) js,
            map (\<lambda>j. np_median (bootstrap_medians (rng (2 * j + 1))
                        (map (\<lambda>k. fwhm (sr ! k)) (bin_members pr (bins ! j))))) js)"
    unfolding fc out m1 m2 by (rule refl)
  with sel show ?thesis by blast
qed

lemma bootstrap_medians_const:
  assumes "2 \<le> length data" and "\<forall>x\<in>set data. x = c"
  shows "bootstrap_medians rng data = replicate 1000 (Fin c)"
proof -
  from assms have ne: "data \<noteq> []" by auto
  let ?n = "nat (py_int (8 / 10 * real (length data)))"
  have pos: "0 < ?n" using assms(1) by (rule sample_size_pos)
  have s: "map (\<lambda>j. Fin (data ! (rng i j mod length data))) [0..<?n] = replicate ?n (Fin c)" for i
  proof -
    have "data ! (k mod length data) = c" for k
      using assms(2) ne by simp
    then show ?thesis
      by (simp add: map_replicate_const)
  qed
  have "np_median (map (\<lambda>j. Fin (data ! (rng i j mod length data))) [0..<?n]) = Fin c" for i
    unfolding s using pos by (rule np_median_replicate)
  then show ?thesis
    by (simp add: bootstrap_medians_def map_replicate_const)
qed

lemma aggregator_example_raster: "raster_outer [[1, 1, 9, 9]] [[1, 1, 2, 2]] (replicate 49 1) [0..<length [[1, 1, 9, 9 :: real]]] ([], [])
    = Inr ([1, 1, 9, 9], [1, 1, 2, 2])"
  by code_simp

lemma aggregator_example_no_tie: "\<not> edge_tie [1, 1, 9, 9]"
  by code_simp

lemma aggregator_example_bins: "filter (supported [1, 1, 9, 9]) [0..<5] = [0, 4]"
  by code_simp

lemma aggregator_example_narrow: "filter (\<lambda>j. narrow [1, 1, 9, 9] [1, 1, 2, 2] ([0, 4] ! j)) [0..<length [0, 4 :: nat]] = [0, 1]"
  by code_simp

lemma aggregator_example_members: "bin_members [1, 1, 9, 9] 0 = [0, 1]" "bin_members [1, 1, 9, 9] 4 = [2, 3]"
  by code_simp+

text \<open>For instance, on two centers at 1 and two at 9:\<close>

lemma final_check_for_output_no_edge_tie_example:
  "final_check_for_output rng [[1, 1, 9, 9]] [[1, 1, 2, 2]] (replicate 49 1)
     = Inr ([Fin 1, Fin 9], [Fin (fwhm 1), Fin (fwhm 2)])"
proof -
  have b: "bootstrap_medians r [c, c] = replicate 1000 (Fin c)" for r c
    by (rule bootstrap_medians_const) simp_all
  from final_check_for_output_no_edge_tie [OF aggregator_example_raster aggregator_example_no_tie, of rng]
  show ?thesis
    unfolding aggregator_example_bins aggregator_example_narrow by (simp add: aggregator_example_members b np_median_replicate)
qed

text \<open>
  C3. Three surviving centers 0, 2 and 10, of fitted widths 1, 100 and 100. The histogram
  has the edges 0, 2, 4, 6, 8, 10, and counts the center 2 in the bin \<open>[2, 4)\<close>: the bin
  \<open>[0, 2)\<close> has the one member 0, which is a third of the survivors, and its width 1 is
  at most 10. Yet that bin contributes nothing: \<^verbatim>\<open>low<=extcv_pks_raster[i]<=high\<close>
  takes the center 2, on the edge, as a member of it too, and the median of the widths
  1 and 100 exceeds 10.
\<close>

theorem final_check_for_output_edge_member:
  "np_histogram [0, 2, 10] 5 = ([1, 1, 0, 0, 1], [0, 2, 4, 6, 8, 10])
   \<and> bin_members [0, 2, 10] 0 = [0]
   \<and> supported [0, 2, 10] 0 \<and> narrow [0, 2, 10] [1, 100, 100] 0
   \<and> sorted_params [0, 2, 10] [1, 100, 100] [(0, 2)] = [([0, 2], [1, 100])]
   \<and> final_check_for_output rng_zero [[0, 2, 10]] [[1, 100, 100]] (replicate 49 1)
       = Inr ([], [])"
  by code_simp

end
